theory Spec2Isabelle
  imports Main "HOL-Library.Word"
begin

section \<open>JavaScript values\<close>

text \<open>
  A JavaScript string is a sequence of UTF-16 code units; \<open>.length\<close>, \<open>trim()\<close> and a
  regular expression without the \<open>u\<close> flag all work on code units. The ASCII literals of
  the source are embedded with \<open>lit\<close>.
\<close>

type_synonym code_unit = "16 word"
type_synonym jsstring = "code_unit list"

definition lit :: "string \<Rightarrow> jsstring" where
  "lit s = map of_char s"

text \<open>
  The argument bag of a tool call is \<open>any\<close>: whatever JSON the caller sent. Numbers are
  only ever looked at through \<open>typeof\<close> and truthiness, so an integer payload stands for
  them. An object is kept as its list of properties; the first binding of a key is the one
  a property read sees.
\<close>

datatype jsval =
    JUndefined
  | JNull
  | JBool bool
  | JNumber int
  | JString jsstring
  | JArray "jsval list"
  | JObject "(jsstring \<times> jsval) list"

datatype js_type = T_undefined | T_object | T_boolean | T_number | T_string

fun typeof :: "jsval \<Rightarrow> js_type" where
  "typeof JUndefined = T_undefined"
| "typeof JNull = T_object"
| "typeof (JBool b) = T_boolean"
| "typeof (JNumber n) = T_number"
| "typeof (JString s) = T_string"
| "typeof (JArray xs) = T_object"
| "typeof (JObject ps) = T_object"

text \<open>
  \<open>args.k\<close> for the four names the validators read (\<open>title\<close>, \<open>notes\<close>, \<open>taskId\<close>,
  \<open>status\<close>): none of them is a property of \<open>Array.prototype\<close> or \<open>Object.prototype\<close>,
  so an array answers \<open>undefined\<close> and an object answers from its own properties. The
  source reads properties only behind the guard \<open>typeof args === "object" && args !== null\<close>.
\<close>

fun get_prop :: "jsval \<Rightarrow> jsstring \<Rightarrow> jsval" where
  "get_prop (JObject ps) k = (case map_of ps k of None \<Rightarrow> JUndefined | Some v \<Rightarrow> v)"
| "get_prop v k = JUndefined"

fun truthy :: "jsval \<Rightarrow> bool" where
  "truthy JUndefined = False"
| "truthy JNull = False"
| "truthy (JBool b) = b"
| "truthy (JNumber n) = (n \<noteq> 0)"
| "truthy (JString s) = (s \<noteq> [])"
| "truthy (JArray xs) = True"
| "truthy (JObject ps) = True"

section \<open>Errors\<close>

datatype ErrorCode = InvalidRequest | MethodNotFound | InvalidParams | InternalError

text \<open>
  What a \<open>throw\<close> or a rejected promise carries: an \<open>McpError\<close> with its code and message,
  any other instance of \<open>Error\<close> with its message, or a value that is no \<open>Error\<close> at all.
\<close>

datatype exn =
    McpError ErrorCode jsstring
  | ErrorInstance jsstring
  | ThrownValue jsval

fun instanceof_Error :: "exn \<Rightarrow> bool" where
  "instanceof_Error (McpError c m) = True"
| "instanceof_Error (ErrorInstance m) = True"
| "instanceof_Error (ThrownValue v) = False"

section \<open>Limits and validators\<close>

definition MAX_TITLE_LENGTH :: nat where
  "MAX_TITLE_LENGTH = 256"

definition MAX_NOTES_LENGTH :: nat where
  "MAX_NOTES_LENGTH = 8192"

definition MAX_TASK_ID_LENGTH :: nat where
  "MAX_TASK_ID_LENGTH = 256"

definition VALID_TASK_STATUSES :: "jsval list" where
  "VALID_TASK_STATUSES = [JString (lit ''needsAction''), JString (lit ''completed'')]"

subsection \<open>sanitizeString\<close>

text \<open>
  \<open>String.prototype.trim\<close> removes the WhiteSpace and LineTerminator code points of
  ECMAScript from both ends: TAB, LF, VT, FF, CR, SP, NBSP, U+1680, U+2000 to U+200A,
  LS, PS, U+202F, U+205F, U+3000 and the byte order mark.
\<close>

definition is_whitespace :: "code_unit \<Rightarrow> bool" where
  "is_whitespace c =
     (c = 0x09 \<or> c = 0x0A \<or> c = 0x0B \<or> c = 0x0C \<or> c = 0x0D \<or> c = 0x20 \<or> c = 0xA0 \<or>
      c = 0x1680 \<or> (0x2000 \<le> c \<and> c \<le> 0x200A) \<or> c = 0x2028 \<or> c = 0x2029 \<or>
      c = 0x202F \<or> c = 0x205F \<or> c = 0x3000 \<or> c = 0xFEFF)"

definition trim :: "jsstring \<Rightarrow> jsstring" where
  "trim s = rev (dropWhile is_whitespace (rev (dropWhile is_whitespace s)))"

text \<open>The character class \<open>[\x00-\x1F\x7F]\<close>.\<close>

definition is_control :: "code_unit \<Rightarrow> bool" where
  "is_control c = (c \<le> 0x1F \<or> c = 0x7F)"

text \<open>\<open>s.replace(/[\x00-\x1F\x7F]/g, '')\<close>: every match is deleted.\<close>

definition replace_control :: "jsstring \<Rightarrow> jsstring" where
  "replace_control s = filter (\<lambda>c. \<not> is_control c) s"

definition sanitizeString :: "jsval \<Rightarrow> exn + jsstring" where
  "sanitizeString input =
     (case input of
        JString s \<Rightarrow> Inr (replace_control (trim s))
      | _ \<Rightarrow> Inl (ErrorInstance (lit ''Input must be a string'')))"

subsection \<open>Type guards\<close>

definition isValidTaskStatus :: "jsval \<Rightarrow> bool" where
  "isValidTaskStatus status = (status \<in> set VALID_TASK_STATUSES)"

text \<open>\<open>typeof v !== "string" || v.length > n\<close>\<close>

fun not_string_or_longer :: "jsval \<Rightarrow> nat \<Rightarrow> bool" where
  "not_string_or_longer (JString s) n = (length s > n)"
| "not_string_or_longer v n = True"

definition isValidCreateTaskArgs :: "jsval \<Rightarrow> bool" where
  "isValidCreateTaskArgs args =
     (if typeof args \<noteq> T_object \<or> args = JNull then False
      else if get_prop args (lit ''title'') \<noteq> JUndefined \<and>
              not_string_or_longer (get_prop args (lit ''title'')) MAX_TITLE_LENGTH then False
      else if get_prop args (lit ''notes'') \<noteq> JUndefined \<and>
              not_string_or_longer (get_prop args (lit ''notes'')) MAX_NOTES_LENGTH then False
      else if get_prop args (lit ''taskId'') \<noteq> JUndefined \<and>
              not_string_or_longer (get_prop args (lit ''taskId'')) MAX_TASK_ID_LENGTH then False
      else if get_prop args (lit ''status'') \<noteq> JUndefined \<and>
              (typeof (get_prop args (lit ''status'')) \<noteq> T_string \<or>
               \<not> isValidTaskStatus (get_prop args (lit ''status''))) then False
      else True)"

text \<open>\<open>typeof v === "string" && v.length > 0 && v.length <= MAX_TASK_ID_LENGTH\<close>\<close>

fun is_task_id :: "jsval \<Rightarrow> bool" where
  "is_task_id (JString s) = (length s > 0 \<and> length s \<le> MAX_TASK_ID_LENGTH)"
| "is_task_id v = False"

definition isValidDeleteTaskArgs :: "jsval \<Rightarrow> bool" where
  "isValidDeleteTaskArgs args =
     (typeof args = T_object \<and> args \<noteq> JNull \<and> is_task_id (get_prop args (lit ''taskId'')))"

definition isValidCompleteTaskArgs :: "jsval \<Rightarrow> bool" where
  "isValidCompleteTaskArgs args =
     (if typeof args \<noteq> T_object \<or> args = JNull then False
      else if \<not> is_task_id (get_prop args (lit ''taskId'')) then False
      else if get_prop args (lit ''status'') \<noteq> JUndefined \<and>
              (typeof (get_prop args (lit ''status'')) \<noteq> T_string \<or>
               \<not> isValidTaskStatus (get_prop args (lit ''status''))) then False
      else True)"

subsection \<open>getSafeErrorMessage\<close>

text \<open>The full error goes to the process's standard error only; the caller gets this.\<close>

definition getSafeErrorMessage :: "exn \<Rightarrow> jsstring" where
  "getSafeErrorMessage error =
     (if instanceof_Error error then lit ''An error occurred while processing your request''
      else lit ''Unknown error occurred'')"

section \<open>The remote task service\<close>

text \<open>
  The four calls the server makes on the googleapis client, with the parameters it passes:
  the task list, and for an insert the title, notes and status of the request body, for a
  delete the task, for a patch the task and the status of the request body.
\<close>

datatype remote_call =
    TasksList jsstring
  | TasksInsert jsstring jsstring jsval jsval
  | TasksDelete jsstring jsstring
  | TasksPatch jsstring jsstring jsval

text \<open>
  The world outside the handlers: an awaited remote call either rejects with what it throws
  or resolves to a response object, and \<open>JSON.stringify(v, null, 2)\<close> either throws or
  returns its text.
\<close>

record env =
  remote :: "remote_call \<Rightarrow> exn + jsval"
  JSON_stringify :: "jsval \<Rightarrow> exn + jsval"

text \<open>
  \<open>v.k\<close> on a value that may be \<open>undefined\<close> or \<open>null\<close> (the reads \<open>response.data\<close>
  and \<open>response.data.items\<close>): a TypeError there, the property otherwise.
\<close>

fun member :: "jsval \<Rightarrow> jsstring \<Rightarrow> exn + jsval" where
  "member JUndefined k = Inl (ErrorInstance (lit ''Cannot read properties of undefined''))"
| "member JNull k = Inl (ErrorInstance (lit ''Cannot read properties of null''))"
| "member v k = Inr (get_prop v k)"

definition bind_exn :: "exn + 'a \<Rightarrow> ('a \<Rightarrow> exn + 'b) \<Rightarrow> exn + 'b" where
  "bind_exn r f = (case r of Inl e \<Rightarrow> Inl e | Inr v \<Rightarrow> f v)"

section \<open>Request handlers\<close>

datatype 'a completion = Return 'a | Throw exn

text \<open>\<open>{ content: [{ type: "text", text }] }\<close>\<close>

datatype tool_result = TextContent jsval

text \<open>\<open>{ contents: [{ uri, mimeType: "application/json", text }] }\<close>\<close>

datatype resource_result = ResourceContents jsstring jsval

text \<open>
  The \<open>catch\<close> clause every \<open>try\<close> block of the handlers ends with.
\<close>

definition catch_internal :: "exn + 'a \<Rightarrow> 'a completion" where
  "catch_internal r =
     (case r of
        Inl error \<Rightarrow> Throw (McpError InternalError (getSafeErrorMessage error))
      | Inr v \<Rightarrow> Return v)"

definition default_tasklist :: jsstring where
  "default_tasklist = lit ''@default''"

definition msg_invalid_create :: jsstring where
  "msg_invalid_create = lit ''Invalid arguments for creating a task. 'title' must be a string (max 256 chars), 'notes' must be a string (max 8192 chars), and 'status' must be 'needsAction' or 'completed'.''"

definition msg_empty_title :: jsstring where
  "msg_empty_title = lit ''Task title cannot be empty after sanitization.''"

definition msg_invalid_delete :: jsstring where
  "msg_invalid_delete = lit ''Invalid arguments for deleting a task. 'taskId' must be a non-empty string.''"

definition msg_empty_task_id :: jsstring where
  "msg_empty_task_id = lit ''Task ID cannot be empty after sanitization.''"

definition msg_invalid_complete :: jsstring where
  "msg_invalid_complete = lit ''Invalid arguments for completing a task. 'taskId' must be a non-empty string and 'status' must be 'needsAction' or 'completed'.''"

definition msg_invalid_status :: jsstring where
  "msg_invalid_status = lit ''Invalid task status. Must be 'needsAction' or 'completed'.''"

text \<open>
  Each handler returns the remote calls it issued, in order, and how it completed.
\<close>

type_synonym 'a outcome = "remote_call list \<times> 'a completion"

definition list_tasks_tool :: "env \<Rightarrow> tool_result outcome" where
  "list_tasks_tool env =
     ([TasksList default_tasklist],
      catch_internal
        (bind_exn (remote env (TasksList default_tasklist)) (\<lambda>response.
         bind_exn (member response (lit ''data'')) (\<lambda>data.
         bind_exn (member data (lit ''items'')) (\<lambda>items.
         bind_exn (JSON_stringify env items) (\<lambda>text.
         Inr (TextContent text)))))))"

definition create_task_tool :: "env \<Rightarrow> jsval \<Rightarrow> tool_result outcome" where
  "create_task_tool env args =
     (if \<not> isValidCreateTaskArgs args then ([], Throw (McpError InvalidParams msg_invalid_create))
      else
        case sanitizeString (get_prop args (lit ''title'')) of
          Inl e \<Rightarrow> ([], Throw e)
        | Inr sanitizedTitle \<Rightarrow>
           (case (if truthy (get_prop args (lit ''notes''))
                  then bind_exn (sanitizeString (get_prop args (lit ''notes''))) (\<lambda>s. Inr (JString s))
                  else Inr JUndefined) of
              Inl e \<Rightarrow> ([], Throw e)
            | Inr sanitizedNotes \<Rightarrow>
               if sanitizedTitle = [] then ([], Throw (McpError InvalidParams msg_empty_title))
               else
                 ([TasksInsert default_tasklist sanitizedTitle sanitizedNotes
                     (get_prop args (lit ''status''))],
                  catch_internal
                    (bind_exn (remote env (TasksInsert default_tasklist sanitizedTitle sanitizedNotes
                                 (get_prop args (lit ''status'')))) (\<lambda>response.
                     bind_exn (member response (lit ''data'')) (\<lambda>data.
                     bind_exn (JSON_stringify env data) (\<lambda>text.
                     Inr (TextContent text))))))))"

definition delete_task_tool :: "env \<Rightarrow> jsval \<Rightarrow> tool_result outcome" where
  "delete_task_tool env args =
     (if \<not> isValidDeleteTaskArgs args then ([], Throw (McpError InvalidParams msg_invalid_delete))
      else
        case sanitizeString (get_prop args (lit ''taskId'')) of
          Inl e \<Rightarrow> ([], Throw e)
        | Inr taskId \<Rightarrow>
            if taskId = [] then ([], Throw (McpError InvalidParams msg_empty_task_id))
            else
              ([TasksDelete default_tasklist taskId],
               catch_internal
                 (bind_exn (remote env (TasksDelete default_tasklist taskId)) (\<lambda>response.
                  Inr (TextContent (JString (lit ''Task deleted successfully.'')))))))"

definition complete_task_tool :: "env \<Rightarrow> jsval \<Rightarrow> tool_result outcome" where
  "complete_task_tool env args =
     (if \<not> isValidCompleteTaskArgs args then ([], Throw (McpError InvalidParams msg_invalid_complete))
      else
        case sanitizeString (get_prop args (lit ''taskId'')) of
          Inl e \<Rightarrow> ([], Throw e)
        | Inr taskId \<Rightarrow>
           (let newStatus = (if truthy (get_prop args (lit ''status''))
                             then get_prop args (lit ''status'')
                             else JString (lit ''completed''))
            in if taskId = [] then ([], Throw (McpError InvalidParams msg_empty_task_id))
               else if \<not> isValidTaskStatus newStatus
                 then ([], Throw (McpError InvalidParams msg_invalid_status))
               else
                 ([TasksPatch default_tasklist taskId newStatus],
                  catch_internal
                    (bind_exn (remote env (TasksPatch default_tasklist taskId newStatus)) (\<lambda>updateResponse.
                     bind_exn (member updateResponse (lit ''data'')) (\<lambda>data.
                     bind_exn (JSON_stringify env data) (\<lambda>text.
                     Inr (TextContent text))))))))"

text \<open>The handler registered for \<open>CallToolRequestSchema\<close>.\<close>

definition callToolHandler :: "env \<Rightarrow> jsstring \<Rightarrow> jsval \<Rightarrow> tool_result outcome" where
  "callToolHandler env name args =
     (if name = lit ''list_tasks'' then list_tasks_tool env
      else if name = lit ''create_task'' then create_task_tool env args
      else if name = lit ''delete_task'' then delete_task_tool env args
      else if name = lit ''complete_task'' then complete_task_tool env args
      else ([], Throw (McpError MethodNotFound (lit ''Unknown tool: '' @ name))))"

text \<open>The handler registered for \<open>ReadResourceRequestSchema\<close>.\<close>

definition readResourceHandler :: "env \<Rightarrow> jsstring \<Rightarrow> resource_result outcome" where
  "readResourceHandler env uri =
     (if uri \<noteq> lit ''tasks://default''
      then ([], Throw (McpError InvalidRequest (lit ''Unknown resource: '' @ uri)))
      else
        ([TasksList default_tasklist],
         catch_internal
           (bind_exn (remote env (TasksList default_tasklist)) (\<lambda>response.
            bind_exn (member response (lit ''data'')) (\<lambda>data.
            bind_exn (member data (lit ''items'')) (\<lambda>items.
            bind_exn (JSON_stringify env items) (\<lambda>text.
            Inr (ResourceContents uri text))))))))"

section \<open>Sample environments\<close>

text \<open>
  Two concrete worlds for the closed instances below: a service that answers every call
  with an empty task list, and one whose every call fails with an error whose message
  carries a credential.
\<close>

definition env_resolving :: env where
  "env_resolving =
     \<lparr>remote = (\<lambda>c. Inr (JObject [(lit ''data'', JObject [(lit ''items'', JArray [])])])),
      JSON_stringify = (\<lambda>v. Inr (JString (lit ''{}'')))\<rparr>"

definition env_rejecting :: env where
  "env_rejecting =
     \<lparr>remote = (\<lambda>c. Inl (ErrorInstance (lit ''invalid_grant: refresh token 1//0gXyz revoked''))),
      JSON_stringify = (\<lambda>v. Inr (JString (lit ''{}'')))\<rparr>"

section \<open>Dispatch and the building blocks\<close>

lemma callTool_list: "callToolHandler env (lit ''list_tasks'') args = list_tasks_tool env"
  by (simp add: callToolHandler_def)

lemma callTool_create: "callToolHandler env (lit ''create_task'') args = create_task_tool env args"
  by (simp add: callToolHandler_def lit_def)

lemma callTool_delete: "callToolHandler env (lit ''delete_task'') args = delete_task_tool env args"
  by (simp add: callToolHandler_def lit_def)

lemma callTool_complete:
  "callToolHandler env (lit ''complete_task'') args = complete_task_tool env args"
  by (simp add: callToolHandler_def lit_def)

lemma get_prop_defined_object:
  "get_prop args k \<noteq> JUndefined \<Longrightarrow> typeof args = T_object \<and> args \<noteq> JNull"
  by (cases args) simp_all

lemma isValidTaskStatus_iff:
  "isValidTaskStatus v \<longleftrightarrow> v = JString (lit ''needsAction'') \<or> v = JString (lit ''completed'')"
  by (auto simp: isValidTaskStatus_def VALID_TASK_STATUSES_def)

lemma replace_control_no_control: "list_all (\<lambda>c. \<not> is_control c) (replace_control s)"
  by (simp add: replace_control_def list_all_iff)

lemma trim_whitespace_only: "list_all is_whitespace s \<Longrightarrow> trim s = []"
proof -
  assume "list_all is_whitespace s"
  then have "dropWhile is_whitespace s = []"
    by (simp add: list_all_iff)
  then show ?thesis unfolding trim_def by (simp only: rev.simps dropWhile.simps)
qed

lemma set_trim_subset: "set (trim s) \<subseteq> set s"
proof
  fix x assume "x \<in> set (trim s)"
  then have "x \<in> set (dropWhile is_whitespace (rev (dropWhile is_whitespace s)))"
    by (simp add: trim_def)
  then have "x \<in> set (dropWhile is_whitespace s)"
    using set_dropWhileD by fastforce
  then show "x \<in> set s" by (rule set_dropWhileD)
qed

lemma sanitize_whitespace_only: "list_all is_whitespace s \<Longrightarrow> replace_control (trim s) = []"
  by (simp add: trim_whitespace_only replace_control_def)

lemma sanitize_control_only: "list_all is_control s \<Longrightarrow> replace_control (trim s) = []"
  using set_trim_subset [of s] by (auto simp: replace_control_def list_all_iff filter_empty_conv)

section \<open>Unknown operations\<close>

text \<open>
  Claim C9. A tool call whose name is none of \<open>list_tasks\<close>, \<open>create_task\<close>,
  \<open>delete_task\<close>, \<open>complete_task\<close> ends in the method-not-found error naming the tool.
  No remote call is issued, and the outcome mentions neither the arguments nor the
  environment: no validator, sanitizer or remote call had a say in it.
\<close>

theorem unknown_tool_method_not_found:
  assumes "name \<noteq> lit ''list_tasks''" "name \<noteq> lit ''create_task''"
    "name \<noteq> lit ''delete_task''" "name \<noteq> lit ''complete_task''"
  shows "callToolHandler env name args =
           ([], Throw (McpError MethodNotFound (lit ''Unknown tool: '' @ name)))"
  using assms by (simp add: callToolHandler_def)

theorem unknown_tool_method_not_found_witness:
  "callToolHandler env_rejecting (lit ''update_task'')
       (JObject [(lit ''taskId'', JString (lit ''t1''))]) =
     ([], Throw (McpError MethodNotFound (lit ''Unknown tool: update_task'')))"
  using unknown_tool_method_not_found [of "lit ''update_task''" env_rejecting
      "JObject [(lit ''taskId'', JString (lit ''t1''))]"]
  by (simp add: lit_def)

section \<open>Length limit of the title\<close>

text \<open>
  Claim C6. A \<open>create_task\<close> call whose title is a string of more than 256 code units is
  rejected with the invalid-arguments error, whatever else the arguments hold, and no
  remote call is issued.
\<close>

theorem long_title_rejected:
  assumes "get_prop args (lit ''title'') = JString t" "length t > 256"
  shows "callToolHandler env (lit ''create_task'') args =
           ([], Throw (McpError InvalidParams msg_invalid_create))"
  using assms
  by (simp add: callTool_create create_task_tool_def isValidCreateTaskArgs_def MAX_TITLE_LENGTH_def)

theorem long_title_rejected_witness:
  "callToolHandler env_resolving (lit ''create_task'')
       (JObject [(lit ''title'', JString (replicate 257 0x41))]) =
     ([], Throw (McpError InvalidParams msg_invalid_create))"
  using long_title_rejected [of "JObject [(lit ''title'', JString (replicate 257 0x41))]"
      "replicate 257 0x41" env_resolving]
  by simp

section \<open>Empty task identifiers\<close>

text \<open>
  Claim C8. A \<open>delete_task\<close> call whose \<open>taskId\<close> is a string that is empty, or that
  \<open>sanitizeString\<close> turns into the empty string, is rejected with the invalid-arguments
  error and no remote call is issued. The message is the validator's when the string is
  empty or longer than 256 code units, and the one about sanitization otherwise.
\<close>

theorem empty_task_id_rejected:
  assumes "get_prop args (lit ''taskId'') = JString t" "replace_control (trim t) = []"
  shows "callToolHandler env (lit ''delete_task'') args =
           ([], Throw (McpError InvalidParams
                  (if t = [] \<or> length t > 256 then msg_invalid_delete else msg_empty_task_id)))"
  using assms get_prop_defined_object [of args "lit ''taskId''"]
  by (auto simp add: callTool_delete delete_task_tool_def isValidDeleteTaskArgs_def
      MAX_TASK_ID_LENGTH_def sanitizeString_def)

theorem empty_task_id_rejected_witness:
  "callToolHandler env_resolving (lit ''delete_task'') (JObject [(lit ''taskId'', JString [])]) =
     ([], Throw (McpError InvalidParams msg_invalid_delete)) \<and>
   callToolHandler env_resolving (lit ''delete_task'')
       (JObject [(lit ''taskId'', JString [0x20, 0x09])]) =
     ([], Throw (McpError InvalidParams msg_empty_task_id))"
  using empty_task_id_rejected [of "JObject [(lit ''taskId'', JString [])]" "[]" env_resolving]
    empty_task_id_rejected [of "JObject [(lit ''taskId'', JString [0x20, 0x09])]" "[0x20, 0x09]"
      env_resolving]
  by (simp add: trim_def replace_control_def is_whitespace_def)

section \<open>The default status of complete_task\<close>

text \<open>
  Claim C5. A \<open>complete_task\<close> call that carries no \<open>status\<close> has exactly the outcome of
  the same call with \<open>status = "completed"\<close> added: the same remote calls and the same
  result or error, for every \<open>taskId\<close> (and whatever other properties the arguments carry).
\<close>

theorem complete_default_same_as_completed:
  assumes "get_prop (JObject ps) (lit ''status'') = JUndefined"
  shows "callToolHandler env (lit ''complete_task'') (JObject ps) =
         callToolHandler env (lit ''complete_task'')
           (JObject ((lit ''status'', JString (lit ''completed'')) # ps))"
proof -
  let ?b = "JObject ((lit ''status'', JString (lit ''completed'')) # ps)"
  have k: "lit ''taskId'' \<noteq> lit ''status''" by (simp add: lit_def)
  have c: "lit ''completed'' \<noteq> []" by (simp add: lit_def)
  have s: "get_prop ?b (lit ''status'') = JString (lit ''completed'')" by simp
  have t: "get_prop ?b (lit ''taskId'') = get_prop (JObject ps) (lit ''taskId'')"
    using k by simp
  show ?thesis
    using c
    by (simp add: callTool_complete complete_task_tool_def isValidCompleteTaskArgs_def
        isValidTaskStatus_iff s t assms Let_def del: get_prop.simps split: sum.splits)
qed

theorem complete_default_same_as_completed_witness:
  "get_prop (JObject [(lit ''taskId'', JString (lit ''t1''))]) (lit ''status'') = JUndefined \<and>
   callToolHandler env_resolving (lit ''complete_task'')
       (JObject [(lit ''taskId'', JString (lit ''t1''))]) =
   callToolHandler env_resolving (lit ''complete_task'')
       (JObject [(lit ''status'', JString (lit ''completed'')),
                 (lit ''taskId'', JString (lit ''t1''))])"
  using complete_default_same_as_completed [of "[(lit ''taskId'', JString (lit ''t1''))]"
      env_resolving]
  by (simp add: lit_def)

section \<open>Failures of the remote service\<close>

lemma catch_internal_rejected:
  "catch_internal (bind_exn (Inl e) f) = Throw (McpError InternalError (getSafeErrorMessage e))"
  by (simp add: catch_internal_def bind_exn_def)

lemma list_tasks_failure:
  "c \<in> set (fst (list_tasks_tool env)) \<Longrightarrow> remote env c = Inl e \<Longrightarrow>
   snd (list_tasks_tool env) = Throw (McpError InternalError (getSafeErrorMessage e))"
  by (simp add: list_tasks_tool_def catch_internal_rejected)

lemma create_task_failure:
  "c \<in> set (fst (create_task_tool env args)) \<Longrightarrow> remote env c = Inl e \<Longrightarrow>
   snd (create_task_tool env args) = Throw (McpError InternalError (getSafeErrorMessage e))"
  by (auto simp: create_task_tool_def catch_internal_rejected split: if_splits sum.splits)

lemma delete_task_failure:
  "c \<in> set (fst (delete_task_tool env args)) \<Longrightarrow> remote env c = Inl e \<Longrightarrow>
   snd (delete_task_tool env args) = Throw (McpError InternalError (getSafeErrorMessage e))"
  by (auto simp: delete_task_tool_def catch_internal_rejected split: if_splits sum.splits)

lemma complete_task_failure:
  "c \<in> set (fst (complete_task_tool env args)) \<Longrightarrow> remote env c = Inl e \<Longrightarrow>
   snd (complete_task_tool env args) = Throw (McpError InternalError (getSafeErrorMessage e))"
  by (auto simp: complete_task_tool_def catch_internal_rejected Let_def split: if_splits sum.splits)

lemma read_resource_failure:
  "c \<in> set (fst (readResourceHandler env uri)) \<Longrightarrow> remote env c = Inl e \<Longrightarrow>
   snd (readResourceHandler env uri) = Throw (McpError InternalError (getSafeErrorMessage e))"
  by (auto simp: readResourceHandler_def catch_internal_rejected split: if_splits)

lemma call_tool_failure:
  "c \<in> set (fst (callToolHandler env name args)) \<Longrightarrow> remote env c = Inl e \<Longrightarrow>
   snd (callToolHandler env name args) = Throw (McpError InternalError (getSafeErrorMessage e))"
  unfolding callToolHandler_def
  using list_tasks_failure create_task_failure delete_task_failure complete_task_failure
  by (auto split: if_splits)

text \<open>
  Claim C3. Whenever a remote call issued by one of the four tools or by the resource read
  fails, the handler ends in an internal error whose message is a constant of the program:
  one text when what was thrown is an \<open>Error\<close>, another when it is not. The message is
  the same for every underlying error text, so nothing of that text reaches the caller.
\<close>

theorem remote_failure_generic:
  "(c \<in> set (fst (callToolHandler env name args)) \<and> remote env c = Inl e \<longrightarrow>
      snd (callToolHandler env name args) =
        Throw (McpError InternalError
          (if instanceof_Error e then lit ''An error occurred while processing your request''
           else lit ''Unknown error occurred''))) \<and>
   (c \<in> set (fst (readResourceHandler env uri)) \<and> remote env c = Inl e \<longrightarrow>
      snd (readResourceHandler env uri) =
        Throw (McpError InternalError
          (if instanceof_Error e then lit ''An error occurred while processing your request''
           else lit ''Unknown error occurred''))) \<and>
   getSafeErrorMessage (ErrorInstance m) = getSafeErrorMessage (ErrorInstance m')"
  using call_tool_failure [of c env name args e] read_resource_failure [of c env uri e]
  by (simp add: getSafeErrorMessage_def)

theorem remote_failure_generic_witness:
  "snd (callToolHandler env_rejecting (lit ''list_tasks'') JUndefined) =
     Throw (McpError InternalError (lit ''An error occurred while processing your request'')) \<and>
   snd (callToolHandler env_rejecting (lit ''create_task'')
          (JObject [(lit ''title'', JString (lit ''Buy milk''))])) =
     Throw (McpError InternalError (lit ''An error occurred while processing your request'')) \<and>
   snd (callToolHandler env_rejecting (lit ''delete_task'')
          (JObject [(lit ''taskId'', JString (lit ''t1''))])) =
     Throw (McpError InternalError (lit ''An error occurred while processing your request'')) \<and>
   snd (callToolHandler env_rejecting (lit ''complete_task'')
          (JObject [(lit ''taskId'', JString (lit ''t1''))])) =
     Throw (McpError InternalError (lit ''An error occurred while processing your request'')) \<and>
   snd (readResourceHandler env_rejecting (lit ''tasks://default'')) =
     Throw (McpError InternalError (lit ''An error occurred while processing your request''))"
proof -
  let ?e = "ErrorInstance (lit ''invalid_grant: refresh token 1//0gXyz revoked'')"
  let ?uri = "lit ''tasks://default''"
  let ?title = "JObject [(lit ''title'', JString (lit ''Buy milk''))]"
  let ?task = "JObject [(lit ''taskId'', JString (lit ''t1''))]"
  let ?list = "TasksList default_tasklist"
  let ?insert = "TasksInsert default_tasklist (lit ''Buy milk'') JUndefined JUndefined"
  let ?delete = "TasksDelete default_tasklist (lit ''t1'')"
  let ?patch = "TasksPatch default_tasklist (lit ''t1'') (JString (lit ''completed''))"
  have r: "remote env_rejecting c = Inl ?e" for c
    by (simp add: env_rejecting_def)
  have i: "instanceof_Error ?e" by simp
  have l: "?list \<in> set (fst (callToolHandler env_rejecting (lit ''list_tasks'') JUndefined))"
    by (simp add: callTool_list list_tasks_tool_def)
  have c: "?insert \<in> set (fst (callToolHandler env_rejecting (lit ''create_task'') ?title))"
    by (simp add: callToolHandler_def create_task_tool_def isValidCreateTaskArgs_def
        sanitizeString_def trim_def replace_control_def is_whitespace_def is_control_def
        MAX_TITLE_LENGTH_def word_le_nat_alt lit_def)
  have d: "?delete \<in> set (fst (callToolHandler env_rejecting (lit ''delete_task'') ?task))"
    by (simp add: callToolHandler_def delete_task_tool_def isValidDeleteTaskArgs_def
        sanitizeString_def trim_def replace_control_def is_whitespace_def is_control_def
        MAX_TASK_ID_LENGTH_def word_le_nat_alt lit_def)
  have p: "?patch \<in> set (fst (callToolHandler env_rejecting (lit ''complete_task'') ?task))"
    by (simp add: callToolHandler_def complete_task_tool_def isValidCompleteTaskArgs_def
        sanitizeString_def trim_def replace_control_def is_whitespace_def is_control_def
        MAX_TASK_ID_LENGTH_def isValidTaskStatus_iff word_le_nat_alt lit_def Let_def)
  have q: "?list \<in> set (fst (readResourceHandler env_rejecting ?uri))"
    by (simp add: readResourceHandler_def)
  show ?thesis
    using remote_failure_generic [of ?list env_rejecting "lit ''list_tasks''" JUndefined ?e ?uri]
      remote_failure_generic [of ?insert env_rejecting "lit ''create_task''" ?title ?e ?uri]
      remote_failure_generic [of ?delete env_rejecting "lit ''delete_task''" ?task ?e ?uri]
      remote_failure_generic [of ?patch env_rejecting "lit ''complete_task''" ?task ?e ?uri]
      r i l c d p q
    by simp
qed

section \<open>Status values\<close>

text \<open>
  Claim C4. A \<open>create_task\<close> or \<open>complete_task\<close> call that carries a status other than
  \<open>needsAction\<close> and \<open>completed\<close> (the empty string, any other string, any value that is
  not a string) is rejected with the invalid-arguments error and issues no remote call,
  whatever the other arguments are. When \<open>complete_task\<close> carries no status, the status
  of every patch it issues is the default \<open>completed\<close>, which is one of the two.
\<close>

theorem invalid_status_rejected:
  "(get_prop args (lit ''status'') \<noteq> JUndefined \<and>
    get_prop args (lit ''status'') \<notin> {JString (lit ''needsAction''), JString (lit ''completed'')} \<longrightarrow>
      callToolHandler env (lit ''create_task'') args =
        ([], Throw (McpError InvalidParams msg_invalid_create)) \<and>
      callToolHandler env (lit ''complete_task'') args =
        ([], Throw (McpError InvalidParams msg_invalid_complete))) \<and>
   (get_prop args (lit ''status'') = JUndefined \<longrightarrow>
      (\<forall>c \<in> set (fst (callToolHandler env (lit ''complete_task'') args)).
         \<exists>t. c = TasksPatch default_tasklist t (JString (lit ''completed''))) \<and>
      JString (lit ''completed'') \<in> {JString (lit ''needsAction''), JString (lit ''completed'')})"
proof -
  have a: "callToolHandler env (lit ''create_task'') args =
             ([], Throw (McpError InvalidParams msg_invalid_create))"
    if "get_prop args (lit ''status'') \<noteq> JUndefined"
      "\<not> isValidTaskStatus (get_prop args (lit ''status''))"
    using that by (simp add: callTool_create create_task_tool_def isValidCreateTaskArgs_def)
  have b: "callToolHandler env (lit ''complete_task'') args =
             ([], Throw (McpError InvalidParams msg_invalid_complete))"
    if "get_prop args (lit ''status'') \<noteq> JUndefined"
      "\<not> isValidTaskStatus (get_prop args (lit ''status''))"
    using that by (simp add: callTool_complete complete_task_tool_def isValidCompleteTaskArgs_def)
  have c: "\<forall>c \<in> set (fst (callToolHandler env (lit ''complete_task'') args)).
         \<exists>t. c = TasksPatch default_tasklist t (JString (lit ''completed''))"
    if "get_prop args (lit ''status'') = JUndefined"
    using that
    by (simp add: callTool_complete complete_task_tool_def Let_def split: sum.splits)
  show ?thesis using a b c by (simp add: isValidTaskStatus_iff)
qed

theorem invalid_status_rejected_witness:
  "callToolHandler env_resolving (lit ''create_task'')
       (JObject [(lit ''title'', JString (lit ''Buy milk'')), (lit ''status'', JString [])]) =
     ([], Throw (McpError InvalidParams msg_invalid_create)) \<and>
   callToolHandler env_resolving (lit ''complete_task'')
       (JObject [(lit ''taskId'', JString (lit ''t1'')), (lit ''status'', JString (lit ''done''))]) =
     ([], Throw (McpError InvalidParams msg_invalid_complete)) \<and>
   get_prop (JObject [(lit ''taskId'', JString (lit ''t1''))]) (lit ''status'') = JUndefined \<and>
   fst (callToolHandler env_resolving (lit ''complete_task'')
       (JObject [(lit ''taskId'', JString (lit ''t1''))])) =
     [TasksPatch default_tasklist (lit ''t1'') (JString (lit ''completed''))]"
proof -
  have p: "\<exists>t. fst (callToolHandler env_resolving (lit ''complete_task'')
                  (JObject [(lit ''taskId'', JString (lit ''t1''))])) =
               [TasksPatch default_tasklist (lit ''t1'') t]"
    by (simp add: callToolHandler_def complete_task_tool_def isValidCompleteTaskArgs_def
        sanitizeString_def trim_def replace_control_def is_whitespace_def is_control_def
        MAX_TASK_ID_LENGTH_def isValidTaskStatus_iff word_le_nat_alt lit_def Let_def)
  show ?thesis
    using invalid_status_rejected [of "JObject [(lit ''title'', JString (lit ''Buy milk'')),
          (lit ''status'', JString [])]" env_resolving]
      invalid_status_rejected [of "JObject [(lit ''taskId'', JString (lit ''t1'')),
          (lit ''status'', JString (lit ''done''))]" env_resolving]
      invalid_status_rejected [of "JObject [(lit ''taskId'', JString (lit ''t1''))]" env_resolving]
      p
    by (auto simp add: lit_def)
qed

section \<open>A call without a title\<close>

lemma valid_notes_cases:
  assumes "isValidCreateTaskArgs args"
  shows "get_prop args (lit ''notes'') = JUndefined \<or>
         (\<exists>n. get_prop args (lit ''notes'') = JString n \<and> length n \<le> 8192)"
  using assms
  by (cases "get_prop args (lit ''notes'')")
     (auto simp: isValidCreateTaskArgs_def MAX_NOTES_LENGTH_def split: if_splits)

lemma empty_title_rejected:
  assumes "get_prop args (lit ''title'') = JString t" "replace_control (trim t) = []"
  shows "callToolHandler env (lit ''create_task'') args =
           ([], Throw (McpError InvalidParams
                  (if isValidCreateTaskArgs args then msg_empty_title else msg_invalid_create)))"
proof (cases "isValidCreateTaskArgs args")
  case True
  then show ?thesis
    using assms valid_notes_cases [OF True]
    by (auto simp add: callTool_create create_task_tool_def sanitizeString_def bind_exn_def)
next
  case False
  then show ?thesis by (simp add: callTool_create create_task_tool_def)
qed

text \<open>
  Claim C2. A \<open>create_task\<close> call without a title should end in the invalid-arguments
  error. It does not: \<open>isValidCreateTaskArgs\<close> looks at the title only when there is one, so
  the empty argument object passes, and \<open>sanitizeString\<close> then throws a plain \<open>Error\<close>
  outside every \<open>try\<close> block. No remote call is issued. (A title that is present and
  empty after sanitization is rejected as the claim says: \<open>empty_title_rejected\<close>.)
\<close>

theorem create_task_without_title:
  "callToolHandler env (lit ''create_task'') (JObject []) =
     ([], Throw (ErrorInstance (lit ''Input must be a string'')))"
  by (simp add: callTool_create create_task_tool_def isValidCreateTaskArgs_def sanitizeString_def)

section \<open>What sanitizeString leaves behind\<close>

lemma args_title_only:
  "isValidCreateTaskArgs (JObject [(lit ''title'', JString t)]) \<longleftrightarrow> length t \<le> 256"
  "get_prop (JObject [(lit ''title'', JString t)]) (lit ''title'') = JString t"
  "get_prop (JObject [(lit ''title'', JString t)]) (lit ''notes'') = JUndefined"
  "get_prop (JObject [(lit ''title'', JString t)]) (lit ''status'') = JUndefined"
  by (auto simp add: isValidCreateTaskArgs_def MAX_TITLE_LENGTH_def lit_def)

lemma insert_strings_control_free:
  assumes "TasksInsert l t n s \<in> set (fst (callToolHandler env name args))"
  shows "t \<noteq> [] \<and> list_all (\<lambda>c. \<not> is_control c) t \<and>
         (n = JUndefined \<or> (\<exists>ns. n = JString ns \<and> list_all (\<lambda>c. \<not> is_control c) ns))"
proof -
  have "TasksInsert l t n s \<in> set (fst (create_task_tool env args))"
    using assms
    by (auto simp: callToolHandler_def list_tasks_tool_def delete_task_tool_def
        complete_task_tool_def Let_def split: if_splits sum.splits)
  then show ?thesis
    using replace_control_no_control
    by (auto simp: create_task_tool_def sanitizeString_def bind_exn_def
        split: if_splits sum.splits jsval.splits)
qed

text \<open>
  Claim C1. The title handed to the remote insert should have no whitespace at either end.
  \<open>sanitizeString\<close> trims first and deletes control characters afterwards, so whitespace
  that a control character shielded from the trim stays: for the title U+0001, space,
  \<open>A\<close> the insert receives space, \<open>A\<close>. (The strings handed over are free of control
  characters, and the title is not empty: \<open>insert_strings_control_free\<close>.)
\<close>

theorem sanitized_title_not_trimmed:
  "fst (callToolHandler env (lit ''create_task'') (JObject [(lit ''title'', JString [0x01, 0x20, 0x41])])) =
     [TasksInsert default_tasklist [0x20, 0x41] JUndefined JUndefined] \<and>
   is_whitespace (hd [0x20, 0x41])"
  by (simp add: callTool_create create_task_tool_def args_title_only sanitizeString_def
      trim_def replace_control_def is_whitespace_def is_control_def word_le_nat_alt
      del: get_prop.simps)

text \<open>
  Claim C7. A title made of whitespace and control characters only should be rejected as
  empty after sanitization. The title U+0001, space, U+0001 is such a title, and it is
  accepted: the sanitized title is a single space, and the insert is issued with it.
\<close>

theorem blank_title_transmitted:
  "list_all (\<lambda>c. is_whitespace c \<or> is_control c) [0x01, 0x20, 0x01] \<and>
   fst (callToolHandler env (lit ''create_task'') (JObject [(lit ''title'', JString [0x01, 0x20, 0x01])])) =
     [TasksInsert default_tasklist [0x20] JUndefined JUndefined]"
  by (simp add: callTool_create create_task_tool_def args_title_only sanitizeString_def
      trim_def replace_control_def is_whitespace_def is_control_def word_le_nat_alt
      del: get_prop.simps)

section \<open>Notes\<close>

lemma args_title_notes:
  "isValidCreateTaskArgs (JObject [(lit ''title'', JString t), (lit ''notes'', JString n)]) \<longleftrightarrow>
     length t \<le> 256 \<and> length n \<le> 8192"
  "get_prop (JObject [(lit ''title'', JString t), (lit ''notes'', JString n)]) (lit ''title'') = JString t"
  "get_prop (JObject [(lit ''title'', JString t), (lit ''notes'', JString n)]) (lit ''notes'') = JString n"
  "get_prop (JObject [(lit ''title'', JString t), (lit ''notes'', JString n)]) (lit ''status'') = JUndefined"
  by (auto simp add: isValidCreateTaskArgs_def MAX_TITLE_LENGTH_def MAX_NOTES_LENGTH_def lit_def)

lemma sanitize_samples:
  "replace_control (trim [0x41]) = [0x41]"
  "replace_control (trim [0x01, 0x20, 0x01]) = [0x20]"
  by (simp_all add: trim_def replace_control_def is_whitespace_def is_control_def word_le_nat_alt)

lemma create_task_notes_transmitted:
  assumes "isValidCreateTaskArgs args" "get_prop args (lit ''title'') = JString t"
    "replace_control (trim t) \<noteq> []"
  shows "fst (callToolHandler env (lit ''create_task'') args) =
           [TasksInsert default_tasklist (replace_control (trim t))
              (case get_prop args (lit ''notes'') of
                 JString n \<Rightarrow> if n = [] then JUndefined else JString (replace_control (trim n))
               | _ \<Rightarrow> JUndefined)
              (get_prop args (lit ''status''))]"
  using assms valid_notes_cases [OF assms(1)]
  by (auto simp add: callTool_create create_task_tool_def sanitizeString_def bind_exn_def)

text \<open>
  Claim C10. Notes made of whitespace and control characters only should reach the remote
  insert as the empty string. Notes never stop a validated call, and absent or empty notes
  go out as no value (\<open>create_task_notes_transmitted\<close>); notes of whitespace only or of
  control characters only go out as the empty string (\<open>sanitize_whitespace_only\<close>,
  \<open>sanitize_control_only\<close>). But \<open>sanitizeString\<close> trims before it deletes control
  characters: with the title \<open>A\<close> and the notes U+0001, space, U+0001 the insert is issued
  with a single space as notes, not with the empty string.
\<close>

theorem blank_notes_transmitted:
  "list_all (\<lambda>c. is_whitespace c \<or> is_control c) [0x01, 0x20, 0x01] \<and>
   fst (callToolHandler env (lit ''create_task'')
       (JObject [(lit ''title'', JString [0x41]), (lit ''notes'', JString [0x01, 0x20, 0x01])])) =
     [TasksInsert default_tasklist [0x41] (JString [0x20]) JUndefined]"
proof -
  have b: "list_all (\<lambda>c. is_whitespace c \<or> is_control c) [0x01, 0x20, 0x01 :: code_unit]"
    by (simp add: is_whitespace_def is_control_def)
  have d: "fst (callToolHandler env (lit ''create_task'')
       (JObject [(lit ''title'', JString [0x41]), (lit ''notes'', JString [0x01, 0x20, 0x01])])) =
     [TasksInsert default_tasklist [0x41] (JString [0x20]) JUndefined]"
    by (simp add: callTool_create create_task_tool_def args_title_notes sanitizeString_def
        sanitize_samples bind_exn_def del: get_prop.simps)
  show ?thesis using b d by blast
qed

end
